theory Spec2Isabelle
  imports Complex_Main "HOL-Library.Word" "HOL-Library.Log_Nat" "HOL-Library.Stream"
begin

section \<open>Machine types\<close>

text \<open>
  Modelled from the spec: the header \<^verbatim>\<open>dtimer.h\<close> is not part of the sources. The spec
  gives a tick value as an unsigned 64-bit integer and an elapsed duration as a 64-bit
  floating-point number of seconds, so \<^verbatim>\<open>tick_t\<close> is \<^verbatim>\<open>uint64_t\<close> and
  \<^verbatim>\<open>deltatime_t\<close> is \<^verbatim>\<open>double\<close>.
\<close>

type_synonym tick_t = "64 word"

subsection \<open>Binary64 arithmetic\<close>

text \<open>
  A \<^verbatim>\<open>double\<close> is a finite value (the real number it denotes), an infinity (the flag is
  the sign bit) or a NaN. The two zeros are one value, \<open>Finite 0\<close>: every double the
  library computes is the conversion of an unsigned integer, the constant 1.0, or a
  product or quotient of such values, so no sign bit is ever set.

  An operation returns the exact result rounded to the nearest representable value, ties
  to the even significand (the default rounding mode of C). \<open>binary_exponent a\<close> is the
  integer \<open>e\<close> with \<open>2\<^sup>e \<le> a < 2\<^sup>e\<^sup>+\<^sup>1\<close>; the spacing of the doubles around \<open>a\<close> is
  \<open>2\<^sup>e\<^sup>-\<^sup>5\<^sup>2\<close> (53 significant bits), with \<open>e\<close> not below \<open>-1022\<close> (subnormal range);
  a result that rounds to \<open>2\<^sup>1\<^sup>0\<^sup>2\<^sup>4\<close> or more overflows to an infinity. Each operation
  of the source is one such rounding: expressions are evaluated in binary64 itself, with
  no wider intermediate format.
\<close>

datatype double = Finite real | Infinite bool | NaN

definition binary_exponent :: "real \<Rightarrow> int" where
  "binary_exponent a =
     (if 1 \<le> a then bitlen \<lfloor>a\<rfloor> - 1 else - bitlen (\<lceil>1 / a\<rceil> - 1))"

definition ulp_of :: "int \<Rightarrow> real" where
  "ulp_of e = (if 52 \<le> e then 2 ^ nat (e - 52) else 1 / 2 ^ nat (52 - e))"

definition round_half_even :: "real \<Rightarrow> int" where
  "round_half_even x =
     (let f = \<lfloor>x\<rfloor>; r = x - of_int f
      in if r < 1 / 2 then f
         else if 1 / 2 < r then f + 1
         else if even f then f else f + 1)"

definition round_double :: "real \<Rightarrow> double" where
  "round_double q =
     (let a = \<bar>q\<bar>;
          u = ulp_of (max (binary_exponent a) (- 1022));
          r = of_int (round_half_even (a / u)) * u
      in if 2 ^ 1024 \<le> r then Infinite (q < 0)
         else Finite (if q < 0 then - r else r))"

text \<open>The conversion \<^verbatim>\<open>(double)x\<close> of an unsigned 64-bit integer.\<close>

definition double_of_tick :: "tick_t \<Rightarrow> double" where
  "double_of_tick x = round_double (of_nat (unat x))"

fun fmul :: "double \<Rightarrow> double \<Rightarrow> double" where
  "fmul (Finite a) (Finite b) = round_double (a * b)"
| "fmul (Finite a) (Infinite s) = (if a = 0 then NaN else Infinite (s \<noteq> (a < 0)))"
| "fmul (Infinite s) (Finite b) = (if b = 0 then NaN else Infinite (s \<noteq> (b < 0)))"
| "fmul (Infinite s) (Infinite t) = Infinite (s \<noteq> t)"
| "fmul _ _ = NaN"

fun fdiv :: "double \<Rightarrow> double \<Rightarrow> double" where
  "fdiv (Finite a) (Finite b) =
     (if b = 0 then (if a = 0 then NaN else Infinite (a < 0)) else round_double (a / b))"
| "fdiv (Finite a) (Infinite s) = Finite 0"
| "fdiv (Infinite s) (Finite b) = Infinite (s \<noteq> (b < 0))"
| "fdiv _ _ = NaN"

section \<open>The platform clock\<close>

text \<open>
  \<^verbatim>\<open>struct timespec\<close>: \<^verbatim>\<open>tv_sec\<close> (a \<^verbatim>\<open>time_t\<close>) and \<^verbatim>\<open>tv_nsec\<close> (a \<^verbatim>\<open>long\<close>) are
  signed integers whose width depends on the platform; they are kept as mathematical
  integers, and the conversion to \<^verbatim>\<open>uint64_t\<close> that the code applies to them is
  \<open>word_of_int\<close> (reduction modulo \<open>2\<^sup>6\<^sup>4\<close>, as C defines it for every width).
\<close>

record timespec =
  tv_sec :: int
  tv_nsec :: int

datatype clockid = CLOCK_REALTIME | CLOCK_MONOTONIC

text \<open>
  One answer of the operating system to \<^verbatim>\<open>clock_gettime\<close>: the return code and, for
  return code 0, the time stored through the pointer.
\<close>

record clock_reply =
  status :: int
  reading :: timespec

section \<open>Process state\<close>

text \<open>A store to one of the three file-scope variables of \<^verbatim>\<open>dtimer.c\<close>.\<close>

datatype store =
    Store_timerlib_freq tick_t
  | Store_timerlib_oofreq double
  | Store_last_mark_ticks tick_t

text \<open>
  The three statics, the stores made to them so far (oldest first), and the answers the
  two POSIX clocks will give to the coming calls of \<^verbatim>\<open>clock_gettime\<close>.
\<close>

record world =
  timerlib_freq :: tick_t
  timerlib_oofreq :: double
  last_mark_ticks :: tick_t
  stores :: "store list"
  monotonic_clock :: "clock_reply stream"
  realtime_clock :: "clock_reply stream"

text \<open>The state at program start: the static initialisers of the POSIX build.\<close>

definition startup :: "clock_reply stream \<Rightarrow> clock_reply stream \<Rightarrow> world" where
  "startup mclock rclock =
     \<lparr>timerlib_freq = 1000000000, timerlib_oofreq = Finite 0, last_mark_ticks = 0,
      stores = [], monotonic_clock = mclock, realtime_clock = rclock\<rparr>"

definition set_timerlib_freq :: "tick_t \<Rightarrow> world \<Rightarrow> world" where
  "set_timerlib_freq v w =
     w\<lparr>timerlib_freq := v, stores := stores w @ [Store_timerlib_freq v]\<rparr>"

definition set_timerlib_oofreq :: "double \<Rightarrow> world \<Rightarrow> world" where
  "set_timerlib_oofreq v w =
     w\<lparr>timerlib_oofreq := v, stores := stores w @ [Store_timerlib_oofreq v]\<rparr>"

definition set_last_mark_ticks :: "tick_t \<Rightarrow> world \<Rightarrow> world" where
  "set_last_mark_ticks v w =
     w\<lparr>last_mark_ticks := v, stores := stores w @ [Store_last_mark_ticks v]\<rparr>"

text \<open>
  \<^verbatim>\<open>clock_gettime(clk, &ts)\<close>: takes the next answer of the clock; on return code 0 the
  time is stored into \<^verbatim>\<open>ts\<close>, otherwise \<^verbatim>\<open>ts\<close> keeps its contents.
\<close>

definition clock_gettime :: "clockid \<Rightarrow> timespec \<Rightarrow> world \<Rightarrow> (int \<times> timespec) \<times> world" where
  "clock_gettime clk ts w =
     (case clk of
        CLOCK_MONOTONIC \<Rightarrow>
          (let r = shd (monotonic_clock w)
           in ((status r, if status r = 0 then reading r else ts),
               w\<lparr>monotonic_clock := stl (monotonic_clock w)\<rparr>))
      | CLOCK_REALTIME \<Rightarrow>
          (let r = shd (realtime_clock w)
           in ((status r, if status r = 0 then reading r else ts),
               w\<lparr>realtime_clock := stl (realtime_clock w)\<rparr>)))"

section \<open>The library, POSIX build\<close>

definition timer_lib_initialize :: "world \<Rightarrow> int \<times> world" where
  "timer_lib_initialize w =
     (let ts = \<lparr>tv_sec = 0, tv_nsec = 0\<rparr>;
          ((rc, ts), w) = clock_gettime CLOCK_MONOTONIC ts w
      in if rc \<noteq> 0 then (- 1, w)
         else
           (let w = set_timerlib_freq 1000000000 w;
                w = set_timerlib_oofreq (fdiv (Finite 1) (double_of_tick (timerlib_freq w))) w
            in (0, w)))"

definition timer_lib_shutdown :: "world \<Rightarrow> unit \<times> world" where
  "timer_lib_shutdown w = ((), w)"

definition timer_current_in_ticks :: "world \<Rightarrow> tick_t \<times> world" where
  "timer_current_in_ticks w =
     (let ts = \<lparr>tv_sec = 0, tv_nsec = 0\<rparr>;
          ((rc, ts), w) = clock_gettime CLOCK_MONOTONIC ts w
      in (word_of_int (tv_sec ts) * 1000000000 + word_of_int (tv_nsec ts), w))"

definition timer_ticks_per_second :: "world \<Rightarrow> tick_t" where
  "timer_ticks_per_second w = timerlib_freq w"

definition timer_elapsed_ticks :: "tick_t \<Rightarrow> world \<Rightarrow> tick_t \<times> world" where
  "timer_elapsed_ticks t w =
     (let dt = (0 :: tick_t);
          ts = \<lparr>tv_sec = 0, tv_nsec = 0\<rparr>;
          ((rc, ts), w) = clock_gettime CLOCK_MONOTONIC ts w;
          curclock = word_of_int (tv_sec ts) * 1000000000 + word_of_int (tv_nsec ts);
          dt = curclock - t
      in (dt, w))"

definition timer_elapsed :: "tick_t \<Rightarrow> world \<Rightarrow> double \<times> world" where
  "timer_elapsed t w =
     (let (dt, w) = timer_elapsed_ticks t w
      in (fmul (double_of_tick dt) (timerlib_oofreq w), w))"

definition timer_ticks_to_seconds :: "tick_t \<Rightarrow> world \<Rightarrow> double" where
  "timer_ticks_to_seconds dt w = fmul (double_of_tick dt) (timerlib_oofreq w)"

definition timer_system_in_millisecond :: "world \<Rightarrow> tick_t \<times> world" where
  "timer_system_in_millisecond w =
     (let ts = \<lparr>tv_sec = 0, tv_nsec = 0\<rparr>;
          ((rc, ts), w) = clock_gettime CLOCK_REALTIME ts w
      in (word_of_int (tv_sec ts) * 1000 + word_of_int (tv_nsec ts) div 1000000, w))"

definition timer_system_in_microsecond :: "world \<Rightarrow> tick_t \<times> world" where
  "timer_system_in_microsecond w =
     (let ts = \<lparr>tv_sec = 0, tv_nsec = 0\<rparr>;
          ((rc, ts), w) = clock_gettime CLOCK_REALTIME ts w
      in (word_of_int (tv_sec ts) * 1000000 + word_of_int (tv_nsec ts) div 1000, w))"

definition timer_system_in_nanosecond :: "world \<Rightarrow> tick_t \<times> world" where
  "timer_system_in_nanosecond w =
     (let ts = \<lparr>tv_sec = 0, tv_nsec = 0\<rparr>;
          ((rc, ts), w) = clock_gettime CLOCK_REALTIME ts w
      in (word_of_int (tv_sec ts) * 1000000000, w))"

definition timer_elapsed_from_lastCall :: "world \<Rightarrow> double \<times> world" where
  "timer_elapsed_from_lastCall w =
     (let w = (if 0 = last_mark_ticks w
               then (let (t, w) = timer_current_in_ticks w in set_last_mark_ticks t w)
               else w);
          (now, w) = timer_current_in_ticks w;
          sec = fdiv (double_of_tick (now - last_mark_ticks w)) (double_of_tick (timerlib_freq w));
          w = set_last_mark_ticks now w
      in (sec, w))"

text \<open>
  The tick value that one answer of the monotonic clock turns into: the buffer is zeroed
  before the call, so a failed call reads as tick 0.
\<close>

definition tick_of :: "clock_reply \<Rightarrow> tick_t" where
  "tick_of r =
     (if status r = 0
      then word_of_int (tv_sec (reading r)) * 1000000000 + word_of_int (tv_nsec (reading r))
      else 0)"

text \<open>The stores to \<^verbatim>\<open>last_mark_ticks\<close> made between an earlier and a later state.\<close>

fun is_mark_store :: "store \<Rightarrow> bool" where
  "is_mark_store (Store_last_mark_ticks v) = True"
| "is_mark_store _ = False"

definition mark_stores_between :: "world \<Rightarrow> world \<Rightarrow> store list" where
  "mark_stores_between w w' = filter is_mark_store (drop (length (stores w)) (stores w'))"

section \<open>Runs of the library\<close>

text \<open>
  A program using the library is a sequence of calls of its eleven entry points, each
  made in the state the previous one left.
\<close>

datatype call =
    Initialize
  | Shutdown
  | Current_in_ticks
  | Ticks_per_second
  | Elapsed tick_t
  | Elapsed_ticks tick_t
  | Ticks_to_seconds tick_t
  | System_in_millisecond
  | System_in_microsecond
  | System_in_nanosecond
  | Elapsed_from_lastCall

fun perform :: "call \<Rightarrow> world \<Rightarrow> world" where
  "perform Initialize w = snd (timer_lib_initialize w)"
| "perform Shutdown w = snd (timer_lib_shutdown w)"
| "perform Current_in_ticks w = snd (timer_current_in_ticks w)"
| "perform Ticks_per_second w = w"
| "perform (Elapsed t) w = snd (timer_elapsed t w)"
| "perform (Elapsed_ticks t) w = snd (timer_elapsed_ticks t w)"
| "perform (Ticks_to_seconds dt) w = w"
| "perform System_in_millisecond w = snd (timer_system_in_millisecond w)"
| "perform System_in_microsecond w = snd (timer_system_in_microsecond w)"
| "perform System_in_nanosecond w = snd (timer_system_in_nanosecond w)"
| "perform Elapsed_from_lastCall w = snd (timer_elapsed_from_lastCall w)"

fun run :: "call list \<Rightarrow> world \<Rightarrow> world" where
  "run [] w = w"
| "run (c # cs) w = run cs (perform c w)"

text \<open>Whether some call of the run is a \<^verbatim>\<open>timer_lib_initialize\<close> that returns 0.\<close>

fun initialize_succeeded :: "call list \<Rightarrow> world \<Rightarrow> bool" where
  "initialize_succeeded [] w = False"
| "initialize_succeeded (c # cs) w =
     ((c = Initialize \<and> fst (timer_lib_initialize w) = 0) \<or>
      initialize_succeeded cs (perform c w))"

subsection \<open>Clock answers used in examples\<close>

definition clock_at :: "int \<Rightarrow> int \<Rightarrow> clock_reply" where
  "clock_at s n = \<lparr>status = 0, reading = \<lparr>tv_sec = s, tv_nsec = n\<rparr>\<rparr>"

definition clock_failure :: clock_reply where
  "clock_failure = \<lparr>status = - 1, reading = \<lparr>tv_sec = 0, tv_nsec = 0\<rparr>\<rparr>"

section \<open>Basic facts\<close>

lemma timer_current_in_ticks_eq:
  "timer_current_in_ticks w =
     (tick_of (shd (monotonic_clock w)), w\<lparr>monotonic_clock := stl (monotonic_clock w)\<rparr>)"
  by (simp add: timer_current_in_ticks_def clock_gettime_def tick_of_def Let_def)

lemma timer_elapsed_ticks_eq:
  "timer_elapsed_ticks t w =
     (tick_of (shd (monotonic_clock w)) - t, w\<lparr>monotonic_clock := stl (monotonic_clock w)\<rparr>)"
  by (simp add: timer_elapsed_ticks_def clock_gettime_def tick_of_def Let_def)

lemma timer_elapsed_from_lastCall_set:
  "last_mark_ticks w \<noteq> 0 \<Longrightarrow>
   timer_elapsed_from_lastCall w =
     (fdiv (double_of_tick (tick_of (shd (monotonic_clock w)) - last_mark_ticks w))
           (double_of_tick (timerlib_freq w)),
      w\<lparr>last_mark_ticks := tick_of (shd (monotonic_clock w)),
        stores := stores w @ [Store_last_mark_ticks (tick_of (shd (monotonic_clock w)))],
        monotonic_clock := stl (monotonic_clock w)\<rparr>)"
  by (simp add: timer_elapsed_from_lastCall_def timer_current_in_ticks_eq
      set_last_mark_ticks_def Let_def)

lemma timer_elapsed_from_lastCall_unset:
  "last_mark_ticks w = 0 \<Longrightarrow>
   timer_elapsed_from_lastCall w =
     (fdiv (double_of_tick (tick_of (shd (stl (monotonic_clock w))) - tick_of (shd (monotonic_clock w))))
           (double_of_tick (timerlib_freq w)),
      w\<lparr>last_mark_ticks := tick_of (shd (stl (monotonic_clock w))),
        stores := stores w @ [Store_last_mark_ticks (tick_of (shd (monotonic_clock w))),
                              Store_last_mark_ticks (tick_of (shd (stl (monotonic_clock w))))],
        monotonic_clock := stl (stl (monotonic_clock w))\<rparr>)"
  by (simp add: timer_elapsed_from_lastCall_def timer_current_in_ticks_eq
      set_last_mark_ticks_def Let_def)

lemma timer_lib_initialize_eq:
  "timer_lib_initialize w =
     (if status (shd (monotonic_clock w)) \<noteq> 0
      then (- 1, w\<lparr>monotonic_clock := stl (monotonic_clock w)\<rparr>)
      else (0, w\<lparr>timerlib_freq := 1000000000,
                 timerlib_oofreq := fdiv (Finite 1) (double_of_tick 1000000000),
                 stores := stores w @ [Store_timerlib_freq 1000000000,
                   Store_timerlib_oofreq (fdiv (Finite 1) (double_of_tick 1000000000))],
                 monotonic_clock := stl (monotonic_clock w)\<rparr>))"
  by (simp add: timer_lib_initialize_def clock_gettime_def set_timerlib_freq_def
      set_timerlib_oofreq_def Let_def)

lemma timer_system_in_nanosecond_eq:
  "fst (timer_system_in_nanosecond w) =
     (if status (shd (realtime_clock w)) = 0
      then word_of_int (tv_sec (reading (shd (realtime_clock w)))) * 1000000000
      else 0)"
  by (simp add: timer_system_in_nanosecond_def clock_gettime_def Let_def)

lemma tick_of_clock_at: "tick_of (clock_at s n) = word_of_int s * 1000000000 + word_of_int n"
  by (simp add: tick_of_def clock_at_def)

lemma tick_of_clock_failure: "tick_of clock_failure = 0"
  by (simp add: tick_of_def clock_failure_def)

section \<open>Facts about binary64 rounding\<close>

lemma round_half_even_of_int: "round_half_even (of_int k) = k"
  by (simp add: round_half_even_def)

lemma round_half_even_lower: "x - 1 / 2 \<le> of_int (round_half_even x)"
  unfolding round_half_even_def Let_def by (auto; linarith)

lemma round_half_even_upper: "of_int (round_half_even x) \<le> x + 1 / 2"
  unfolding round_half_even_def Let_def by (auto; linarith)

lemma round_half_even_nonneg: "0 \<le> x \<Longrightarrow> 0 \<le> round_half_even x"
  unfolding round_half_even_def Let_def by auto

lemma ulp_of_powi: "ulp_of e = 2 powi (e - 52)"
  by (simp add: ulp_of_def power_int_def power_one_over field_simps)

lemma ulp_of_pos: "0 < ulp_of e"
  by (simp add: ulp_of_def)

lemma binary_exponent_ge1:
  assumes "1 \<le> a"
  shows "2 powi (binary_exponent a) \<le> a" and "a < 2 powi (binary_exponent a + 1)"
proof -
  let ?n = "\<lfloor>a\<rfloor>"
  from assms have n: "0 < ?n" by linarith
  from bitlen_bounds [OF n] have lo: "2 ^ nat (bitlen ?n - 1) \<le> ?n" and hi: "?n < 2 ^ nat (bitlen ?n)"
    by auto
  from n have b: "1 \<le> bitlen ?n" by (simp add: bitlen_alt_def)
  have e: "binary_exponent a = bitlen ?n - 1" using assms by (simp add: binary_exponent_def)
  have "(2::real) powi (bitlen ?n - 1) = of_int (2 ^ nat (bitlen ?n - 1))"
    using b by (simp add: power_int_def)
  also have "\<dots> \<le> of_int ?n" using lo by (simp only: of_int_le_iff)
  also have "\<dots> \<le> a" by simp
  finally show "2 powi (binary_exponent a) \<le> a" by (simp add: e)
  have "a < of_int (?n + 1)" by linarith
  also have "\<dots> \<le> of_int (2 ^ nat (bitlen ?n))" using hi by (simp only: of_int_le_iff)
  also have "\<dots> = (2::real) powi (bitlen ?n)" using b by (simp add: power_int_def)
  finally show "a < 2 powi (binary_exponent a + 1)" by (simp add: e)
qed

lemma binary_exponent_lt1:
  assumes "0 < a" "a < 1"
  shows "2 powi (binary_exponent a) \<le> a" and "a < 2 powi (binary_exponent a + 1)"
proof -
  let ?k = "\<lceil>1 / a\<rceil> - 1"
  from assms have inv: "1 < 1 / a" by simp
  then have k: "0 < ?k" by linarith
  from bitlen_bounds [OF k] have lo: "2 ^ nat (bitlen ?k - 1) \<le> ?k" and hi: "?k < 2 ^ nat (bitlen ?k)"
    by auto
  from k have b: "1 \<le> bitlen ?k" by (simp add: bitlen_alt_def)
  have e: "binary_exponent a = - bitlen ?k" using assms by (simp add: binary_exponent_def)
  have "1 / a \<le> of_int (?k + 1)" by simp
  also have "\<dots> \<le> of_int (2 ^ nat (bitlen ?k))" using hi by (simp only: of_int_le_iff)
  also have "\<dots> = (2::real) ^ nat (bitlen ?k)" by simp
  finally have "1 / a \<le> 2 ^ nat (bitlen ?k)" .
  then have "1 / 2 ^ nat (bitlen ?k) \<le> a" using assms by (simp add: field_simps)
  moreover have "(2::real) powi (- bitlen ?k) = 1 / 2 ^ nat (bitlen ?k)"
    using b by (simp add: power_int_def power_one_over field_simps)
  ultimately show "2 powi (binary_exponent a) \<le> a" by (simp add: e)
  have "(2::real) ^ nat (bitlen ?k - 1) = of_int (2 ^ nat (bitlen ?k - 1))" by simp
  also have "\<dots> \<le> of_int ?k" using lo by (simp only: of_int_le_iff)
  also have "\<dots> < 1 / a" by linarith
  finally have "2 ^ nat (bitlen ?k - 1) < 1 / a" .
  then have "a < 1 / 2 ^ nat (bitlen ?k - 1)" using assms by (simp add: field_simps)
  moreover have "(2::real) powi (- bitlen ?k + 1) = 1 / 2 ^ nat (bitlen ?k - 1)"
    using b by (simp add: power_int_def power_one_over field_simps nat_diff_distrib)
  ultimately show "a < 2 powi (binary_exponent a + 1)" by (simp add: e)
qed

lemma binary_exponent_bounds:
  "0 < a \<Longrightarrow> 2 powi (binary_exponent a) \<le> a \<and> a < 2 powi (binary_exponent a + 1)"
  using binary_exponent_ge1 [of a] binary_exponent_lt1 [of a] by (cases "1 \<le> a") auto

lemma ulp_of_mono: "e \<le> e' \<Longrightarrow> ulp_of e \<le> ulp_of e'"
  by (simp add: ulp_of_powi power_int_increasing)

lemma binary_exponent_0: "binary_exponent 0 = 0"
  by (simp add: binary_exponent_def bitlen_def floorlog_def)

lemma binary_exponent_less:
  assumes "0 < a" "a < 2 powi k"
  shows "binary_exponent a < k"
proof (rule ccontr)
  assume "\<not> binary_exponent a < k"
  then have "k \<le> binary_exponent a" by simp
  then have "(2::real) powi k \<le> 2 powi (binary_exponent a)"
    by (rule power_int_increasing) simp
  moreover from assms have "2 powi (binary_exponent a) \<le> a"
    by (simp add: binary_exponent_bounds)
  ultimately show False using assms by simp
qed

lemma round_double_nearest:
  assumes "\<bar>q\<bar> < 2 ^ 1023"
  shows "\<exists>r. round_double q = Finite r \<and>
             \<bar>r - q\<bar> \<le> ulp_of (max (binary_exponent \<bar>q\<bar>) (- 1022)) / 2"
proof -
  define a where "a = \<bar>q\<bar>"
  define e where "e = max (binary_exponent a) (- 1022)"
  define u where "u = ulp_of e"
  define m where "m = round_half_even (a / u)"
  have a0: "0 \<le> a" by (simp add: a_def)
  have u_pos: "0 < u" by (simp add: u_def ulp_of_pos)
  have "binary_exponent a < 1023"
  proof (cases "a = 0")
    case True
    then show ?thesis by (simp add: binary_exponent_0)
  next
    case False
    with a0 have "0 < a" by simp
    moreover have "a < 2 powi 1023" using assms by (simp add: a_def)
    ultimately show ?thesis by (rule binary_exponent_less)
  qed
  then have "e \<le> 1022" by (simp add: e_def)
  then have "u \<le> ulp_of 1022" unfolding u_def by (rule ulp_of_mono)
  then have u_le: "u \<le> 2 ^ 970" by (simp add: ulp_of_def)
  have "a / u - 1 / 2 \<le> of_int m" "of_int m \<le> a / u + 1 / 2"
    by (simp_all add: m_def round_half_even_lower round_half_even_upper)
  then have "(a / u - 1 / 2) * u \<le> of_int m * u" "of_int m * u \<le> (a / u + 1 / 2) * u"
    using u_pos by (simp_all only: mult_le_cancel_right_pos)
  moreover have "(a / u - 1 / 2) * u = a - u / 2" "(a / u + 1 / 2) * u = a + u / 2"
    using u_pos by (simp_all add: left_diff_distrib distrib_right)
  ultimately have lo: "a - u / 2 \<le> of_int m * u" and hi: "of_int m * u \<le> a + u / 2"
    by simp_all
  have "(2::real) ^ 970 \<le> 2 ^ 1023" by (rule power_increasing) simp_all
  moreover have "(2::real) ^ 1024 = 2 * 2 ^ 1023" by simp
  moreover have "a < 2 ^ 1023" using assms by (simp add: a_def)
  ultimately have fin: "\<not> 2 ^ 1024 \<le> of_int m * u" using hi u_le u_pos by linarith
  define r where "r = (if q < 0 then - (of_int m * u) else of_int m * u)"
  have "round_double q = Finite r"
    using fin by (simp add: round_double_def Let_def a_def [symmetric] e_def [symmetric]
        u_def [symmetric] m_def [symmetric] r_def)
  moreover have "\<bar>r - q\<bar> \<le> u / 2"
  proof (cases "q < 0")
    case True
    then have "r = - (of_int m * u)" "a = - q" by (simp_all add: r_def a_def)
    with lo hi show ?thesis by linarith
  next
    case False
    then have "r = of_int m * u" "a = q" by (simp_all add: r_def a_def)
    with lo hi show ?thesis by linarith
  qed
  ultimately show ?thesis by (auto simp: u_def e_def a_def)
qed

lemma double_of_tick_finite: "\<exists>r. double_of_tick x = Finite r"
proof -
  have "unat x < 2 ^ 64" using unsigned_less [of x] by simp
  then have "real (unat x) < 2 ^ 64" by (metis of_nat_less_iff of_nat_numeral of_nat_power)
  also have "(2::real) ^ 64 \<le> 2 ^ 1023" by (rule power_increasing) simp_all
  finally have "real (unat x) < 2 ^ 1023" .
  then have "\<bar>real (unat x)\<bar> < 2 ^ 1023" by (simp only: abs_of_nat)
  from round_double_nearest [OF this] show ?thesis by (auto simp: double_of_tick_def)
qed

lemma round_double_0: "round_double 0 = Finite 0"
  by (simp add: round_double_def round_half_even_def Let_def)

lemma fmul_tick_zero: "fmul (double_of_tick x) (Finite 0) = Finite 0"
  using double_of_tick_finite [of x] by (auto simp: round_double_0)

lemma round_double_eval:
  assumes "0 \<le> q" "binary_exponent q = e" "- 1022 \<le> e"
    and "round_half_even (q / ulp_of e) = m" "of_int m * ulp_of e < 2 ^ 1024"
  shows "round_double q = Finite (of_int m * ulp_of e)"
proof -
  from assms have a: "\<bar>q\<bar> = q" and pos: "\<not> q < 0" by simp_all
  from assms have e: "max (binary_exponent q) (- 1022) = e" by simp
  from assms have fin: "\<not> 2 ^ 1024 \<le> of_int m * ulp_of e" by (simp only: not_le)
  show ?thesis
    unfolding round_double_def Let_def a e \<open>round_half_even (q / ulp_of e) = m\<close>
    using pos fin by (simp only: if_False)
qed

lemma double_of_tick_freq: "double_of_tick 1000000000 = Finite 1000000000"
proof -
  have "binary_exponent 1000000000 = 29"
    by (simp add: binary_exponent_def bitlen_def compute_floorlog)
  moreover have "round_half_even (1000000000 / ulp_of 29) = 8388608000000000"
    by (simp add: ulp_of_def round_half_even_def Let_def)
  moreover have "of_int 8388608000000000 * ulp_of 29 < 2 ^ 1024"
    by (simp add: ulp_of_def)
  ultimately have "round_double 1000000000 = Finite (of_int 8388608000000000 * ulp_of 29)"
    by (intro round_double_eval) simp_all
  then show ?thesis by (simp add: double_of_tick_def ulp_of_def)
qed

lemma reciprocal_freq:
  "fdiv (Finite 1) (Finite 1000000000) = Finite (4835703278458517 / 2 ^ 82)"
proof -
  have "binary_exponent (1 / 1000000000) = - 30"
    by (simp add: binary_exponent_def bitlen_def compute_floorlog)
  moreover have "round_half_even (1 / 1000000000 / ulp_of (- 30)) = 4835703278458517"
    by (simp add: ulp_of_def round_half_even_def Let_def)
  moreover have "of_int 4835703278458517 * ulp_of (- 30) < 2 ^ 1024"
    by (simp add: ulp_of_def)
  ultimately have "round_double (1 / 1000000000) = Finite (of_int 4835703278458517 * ulp_of (- 30))"
    by (intro round_double_eval) simp_all
  then show ?thesis by (simp add: ulp_of_def)
qed

lemma freq_times_reciprocal:
  "fmul (Finite 1000000000) (Finite (4835703278458517 / 2 ^ 82)) = Finite 1"
proof -
  let ?p = "1000000000 * (4835703278458517 / 2 ^ 82) :: real"
  have "binary_exponent ?p = 0"
    by (simp add: binary_exponent_def bitlen_def compute_floorlog)
  moreover have "round_half_even (?p / ulp_of 0) = 4503599627370496"
    by (simp add: ulp_of_def round_half_even_def Let_def)
  moreover have "of_int 4503599627370496 * ulp_of 0 < 2 ^ 1024"
    by (simp add: ulp_of_def)
  ultimately have "round_double ?p = Finite (of_int 4503599627370496 * ulp_of 0)"
    by (intro round_double_eval) simp_all
  then show ?thesis by (simp add: ulp_of_def)
qed

section \<open>Invariants of runs\<close>

lemma perform_keeps_uninitialized:
  assumes "timerlib_oofreq w = Finite 0" "timerlib_freq w = 1000000000"
    and "\<not> (c = Initialize \<and> fst (timer_lib_initialize w) = 0)"
  shows "timerlib_oofreq (perform c w) = Finite 0 \<and> timerlib_freq (perform c w) = 1000000000"
proof (cases c)
  case Initialize
  with assms show ?thesis by (simp add: timer_lib_initialize_eq split: if_splits)
next
  case Elapsed_from_lastCall
  with assms show ?thesis
    by (cases "last_mark_ticks w = 0")
      (simp_all add: timer_elapsed_from_lastCall_set timer_elapsed_from_lastCall_unset)
qed (use assms in \<open>simp_all add: timer_lib_shutdown_def timer_current_in_ticks_eq
      timer_elapsed_def timer_elapsed_ticks_eq timer_system_in_millisecond_def
      timer_system_in_microsecond_def timer_system_in_nanosecond_def clock_gettime_def Let_def\<close>)

lemma run_keeps_uninitialized:
  "timerlib_oofreq w = Finite 0 \<Longrightarrow> timerlib_freq w = 1000000000 \<Longrightarrow>
   \<not> initialize_succeeded cs w \<Longrightarrow>
   timerlib_oofreq (run cs w) = Finite 0 \<and> timerlib_freq (run cs w) = 1000000000"
proof (induction cs arbitrary: w)
  case Nil
  then show ?case by simp
next
  case (Cons c cs)
  from Cons.prems have "\<not> (c = Initialize \<and> fst (timer_lib_initialize w) = 0)"
    and rest: "\<not> initialize_succeeded cs (perform c w)" by simp_all
  with Cons.prems have "timerlib_oofreq (perform c w) = Finite 0 \<and> timerlib_freq (perform c w) = 1000000000"
    by (intro perform_keeps_uninitialized)
  with rest Cons.IH [of "perform c w"] show ?case by simp
qed

lemma perform_keeps_initialized:
  assumes "timerlib_freq w = 1000000000"
    and "timerlib_oofreq w = fdiv (Finite 1) (double_of_tick 1000000000)"
  shows "timerlib_freq (perform c w) = 1000000000 \<and>
         timerlib_oofreq (perform c w) = fdiv (Finite 1) (double_of_tick 1000000000)"
proof (cases c)
  case Initialize
  with assms show ?thesis by (simp add: timer_lib_initialize_eq)
next
  case Elapsed_from_lastCall
  with assms show ?thesis
    by (cases "last_mark_ticks w = 0")
      (simp_all add: timer_elapsed_from_lastCall_set timer_elapsed_from_lastCall_unset)
qed (use assms in \<open>simp_all add: timer_lib_shutdown_def timer_current_in_ticks_eq
      timer_elapsed_def timer_elapsed_ticks_eq timer_system_in_millisecond_def
      timer_system_in_microsecond_def timer_system_in_nanosecond_def clock_gettime_def Let_def\<close>)

lemma run_keeps_initialized:
  "timerlib_freq w = 1000000000 \<Longrightarrow>
   timerlib_oofreq w = fdiv (Finite 1) (double_of_tick 1000000000) \<Longrightarrow>
   timerlib_freq (run cs w) = 1000000000 \<and>
   timerlib_oofreq (run cs w) = fdiv (Finite 1) (double_of_tick 1000000000)"
proof (induction cs arbitrary: w)
  case Nil
  then show ?case by simp
next
  case (Cons c cs)
  from perform_keeps_initialized [OF Cons.prems, of c] Cons.IH [of "perform c w"]
  show ?case by simp
qed

lemma run_initialized:
  "initialize_succeeded cs w \<Longrightarrow>
   timerlib_freq (run cs w) = 1000000000 \<and>
   timerlib_oofreq (run cs w) = fdiv (Finite 1) (double_of_tick 1000000000)"
proof (induction cs arbitrary: w)
  case Nil
  then show ?case by simp
next
  case (Cons c cs)
  show ?case
  proof (cases "c = Initialize \<and> fst (timer_lib_initialize w) = 0")
    case True
    then have "timerlib_freq (perform c w) = 1000000000"
      "timerlib_oofreq (perform c w) = fdiv (Finite 1) (double_of_tick 1000000000)"
      by (simp_all add: timer_lib_initialize_eq split: if_splits)
    from run_keeps_initialized [OF this, of cs] show ?thesis by simp
  next
    case False
    with Cons.prems have "initialize_succeeded cs (perform c w)" by simp
    from Cons.IH [OF this] show ?thesis by simp
  qed
qed

section \<open>The claims\<close>

text \<open>
  C1. Claimed: on POSIX, \<^verbatim>\<open>timer_system_in_nanosecond\<close> returns the realtime reading
  as \<open>tv_sec * 10\<^sup>9 + tv_nsec\<close>. The code multiplies \<open>tv_sec\<close> and never adds
  \<open>tv_nsec\<close>: for the reading (1 s, 5 ns) it returns 1000000000, not 1000000005.
\<close>

theorem nanosecond_drops_tv_nsec:
  "fst (timer_system_in_nanosecond (startup (sconst clock_failure) (sconst (clock_at 1 5))))
     = 1000000000"
  by (simp add: timer_system_in_nanosecond_def clock_gettime_def startup_def clock_at_def Let_def)

text \<open>
  C2, as claimed: every call of \<^verbatim>\<open>timer_elapsed_from_lastCall\<close>, the first included,
  stores to \<^verbatim>\<open>last_mark_ticks\<close> exactly once. At program start the mark is 0 and the
  call stores twice: the number of stores is not 1.
\<close>

theorem first_call_stores_mark_twice:
  "length (mark_stores_between (startup (sconst (clock_at 0 7)) (sconst clock_failure))
      (snd (timer_elapsed_from_lastCall (startup (sconst (clock_at 0 7)) (sconst clock_failure)))))
     \<noteq> 1"
  by (simp add: timer_elapsed_from_lastCall_unset mark_stores_between_def startup_def)

text \<open>
  C2, amended: a call of \<^verbatim>\<open>timer_elapsed_from_lastCall\<close> stores to
  \<^verbatim>\<open>last_mark_ticks\<close> exactly once when the mark is set (non-zero) on entry, and exactly
  twice when it is 0 on entry (first the tick that initialises the mark, then the final
  tick); the value the mark has after the call is not below its value before the call
  whenever the final tick reading of the call is not below the previous mark.
\<close>

theorem mark_stored_per_call:
  "mark_stores_between w (snd (timer_elapsed_from_lastCall w)) =
     (if last_mark_ticks w = 0
      then [Store_last_mark_ticks (tick_of (shd (monotonic_clock w))),
            Store_last_mark_ticks (tick_of (shd (stl (monotonic_clock w))))]
      else [Store_last_mark_ticks (tick_of (shd (monotonic_clock w)))]) \<and>
   (last_mark_ticks w \<le> (if last_mark_ticks w = 0 then tick_of (shd (stl (monotonic_clock w)))
                           else tick_of (shd (monotonic_clock w))) \<longrightarrow>
    last_mark_ticks w \<le> last_mark_ticks (snd (timer_elapsed_from_lastCall w)))"
  by (cases "last_mark_ticks w = 0")
    (simp_all add: timer_elapsed_from_lastCall_set timer_elapsed_from_lastCall_unset
      mark_stores_between_def)

theorem mark_stored_per_call_witness:
  "last_mark_ticks ((startup (sconst (clock_at 0 7)) (sconst clock_failure))\<lparr>last_mark_ticks := 5\<rparr>)
     \<le> tick_of (shd (monotonic_clock
          ((startup (sconst (clock_at 0 7)) (sconst clock_failure))\<lparr>last_mark_ticks := 5\<rparr>))) \<and>
   mark_stores_between ((startup (sconst (clock_at 0 7)) (sconst clock_failure))\<lparr>last_mark_ticks := 5\<rparr>)
     (snd (timer_elapsed_from_lastCall
        ((startup (sconst (clock_at 0 7)) (sconst clock_failure))\<lparr>last_mark_ticks := 5\<rparr>)))
     = [Store_last_mark_ticks 7] \<and>
   last_mark_ticks ((startup (sconst (clock_at 0 7)) (sconst clock_failure))\<lparr>last_mark_ticks := 5\<rparr>)
     \<le> last_mark_ticks (snd (timer_elapsed_from_lastCall
          ((startup (sconst (clock_at 0 7)) (sconst clock_failure))\<lparr>last_mark_ticks := 5\<rparr>)))"
  using mark_stored_per_call
    [of "(startup (sconst (clock_at 0 7)) (sconst clock_failure))\<lparr>last_mark_ticks := 5\<rparr>"]
  by (simp add: startup_def tick_of_clock_at)

text \<open>
  C3. With the mark set, \<^verbatim>\<open>timer_elapsed_from_lastCall\<close> returns the double quotient of
  \<open>now - mark\<close> by the frequency, \<open>now\<close> being the current tick reading, and leaves the
  mark equal to \<open>now\<close>. With the mark unset (0) it first stores a current tick reading as
  the mark, and returns the seconds between that reading and the next one it takes.
\<close>

theorem elapsed_from_lastCall_result:
  "(last_mark_ticks w \<noteq> 0 \<longrightarrow>
      fst (timer_elapsed_from_lastCall w) =
        fdiv (double_of_tick (fst (timer_current_in_ticks w) - last_mark_ticks w))
             (double_of_tick (timerlib_freq w)) \<and>
      last_mark_ticks (snd (timer_elapsed_from_lastCall w)) = fst (timer_current_in_ticks w)) \<and>
   (last_mark_ticks w = 0 \<longrightarrow>
      stores (snd (timer_elapsed_from_lastCall w)) =
        stores w @ [Store_last_mark_ticks (fst (timer_current_in_ticks w)),
                    Store_last_mark_ticks (fst (timer_current_in_ticks (snd (timer_current_in_ticks w))))] \<and>
      fst (timer_elapsed_from_lastCall w) =
        fdiv (double_of_tick (fst (timer_current_in_ticks (snd (timer_current_in_ticks w)))
                              - fst (timer_current_in_ticks w)))
             (double_of_tick (timerlib_freq w)))"
  by (cases "last_mark_ticks w = 0")
    (simp_all add: timer_elapsed_from_lastCall_set timer_elapsed_from_lastCall_unset
      timer_current_in_ticks_eq)

theorem elapsed_from_lastCall_result_witness:
  "last_mark_ticks ((startup (sconst (clock_at 0 7)) (sconst clock_failure))\<lparr>last_mark_ticks := 5\<rparr>) \<noteq> 0 \<and>
   fst (timer_elapsed_from_lastCall
         ((startup (sconst (clock_at 0 7)) (sconst clock_failure))\<lparr>last_mark_ticks := 5\<rparr>))
     = fdiv (double_of_tick 2) (double_of_tick 1000000000) \<and>
   last_mark_ticks (snd (timer_elapsed_from_lastCall
         ((startup (sconst (clock_at 0 7)) (sconst clock_failure))\<lparr>last_mark_ticks := 5\<rparr>))) = 7 \<and>
   last_mark_ticks (startup (clock_at 0 7 ## sconst (clock_at 0 9)) (sconst clock_failure)) = 0 \<and>
   fst (timer_elapsed_from_lastCall (startup (clock_at 0 7 ## sconst (clock_at 0 9)) (sconst clock_failure)))
     = fdiv (double_of_tick 2) (double_of_tick 1000000000)"
  using elapsed_from_lastCall_result
    [of "(startup (sconst (clock_at 0 7)) (sconst clock_failure))\<lparr>last_mark_ticks := 5\<rparr>"]
    elapsed_from_lastCall_result
    [of "startup (clock_at 0 7 ## sconst (clock_at 0 9)) (sconst clock_failure)"]
  by (simp add: startup_def timer_current_in_ticks_eq tick_of_clock_at)

text \<open>
  C4. \<^verbatim>\<open>timer_lib_initialize\<close> returns -1 exactly when \<^verbatim>\<open>clock_gettime(CLOCK_MONOTONIC)\<close>
  returns non-zero, after asking the clock once; then no static is stored to: the
  frequency and the reciprocal are unchanged (a reciprocal of 0 remains 0). On success
  it returns 0 and the reciprocal is the double quotient of 1.0 by the frequency.
\<close>

theorem initialize_fails_iff:
  "(fst (timer_lib_initialize w) = - 1 \<longleftrightarrow> status (shd (monotonic_clock w)) \<noteq> 0) \<and>
   monotonic_clock (snd (timer_lib_initialize w)) = stl (monotonic_clock w) \<and>
   (status (shd (monotonic_clock w)) \<noteq> 0 \<longrightarrow>
      timerlib_freq (snd (timer_lib_initialize w)) = timerlib_freq w \<and>
      timerlib_oofreq (snd (timer_lib_initialize w)) = timerlib_oofreq w \<and>
      last_mark_ticks (snd (timer_lib_initialize w)) = last_mark_ticks w \<and>
      stores (snd (timer_lib_initialize w)) = stores w \<and>
      (timerlib_oofreq w = Finite 0 \<longrightarrow> timerlib_oofreq (snd (timer_lib_initialize w)) = Finite 0)) \<and>
   (status (shd (monotonic_clock w)) = 0 \<longrightarrow>
      fst (timer_lib_initialize w) = 0 \<and>
      timerlib_oofreq (snd (timer_lib_initialize w)) =
        fdiv (Finite 1) (double_of_tick (timerlib_freq (snd (timer_lib_initialize w)))))"
  by (simp add: timer_lib_initialize_eq)

theorem initialize_fails_iff_witness:
  "status (shd (monotonic_clock (startup (sconst clock_failure) (sconst clock_failure)))) \<noteq> 0 \<and>
   fst (timer_lib_initialize (startup (sconst clock_failure) (sconst clock_failure))) = - 1 \<and>
   timerlib_oofreq (startup (sconst clock_failure) (sconst clock_failure)) = Finite 0 \<and>
   timerlib_oofreq (snd (timer_lib_initialize (startup (sconst clock_failure) (sconst clock_failure))))
     = Finite 0 \<and>
   timerlib_freq (snd (timer_lib_initialize (startup (sconst clock_failure) (sconst clock_failure))))
     = 1000000000 \<and>
   status (shd (monotonic_clock (startup (sconst (clock_at 1 5)) (sconst clock_failure)))) = 0 \<and>
   fst (timer_lib_initialize (startup (sconst (clock_at 1 5)) (sconst clock_failure))) = 0"
  using initialize_fails_iff [of "startup (sconst clock_failure) (sconst clock_failure)"]
    initialize_fails_iff [of "startup (sconst (clock_at 1 5)) (sconst clock_failure)"]
  by (simp add: startup_def clock_at_def clock_failure_def)

text \<open>
  C5. \<^verbatim>\<open>timer_elapsed_ticks since\<close> returns \<open>now - since\<close> in unsigned 64-bit arithmetic,
  \<open>now\<close> being the tick the clock answer of that call gives: the difference of the two
  numbers modulo \<open>2\<^sup>6\<^sup>4\<close>, which is the plain difference when \<open>since \<le> now\<close> and the
  difference plus \<open>2\<^sup>6\<^sup>4\<close> when \<open>since > now\<close>.
\<close>

theorem elapsed_ticks_mod:
  "fst (timer_elapsed_ticks since w) = fst (timer_current_in_ticks w) - since \<and>
   uint (fst (timer_elapsed_ticks since w))
     = (uint (fst (timer_current_in_ticks w)) - uint since) mod 2 ^ 64 \<and>
   (since \<le> fst (timer_current_in_ticks w) \<longrightarrow>
      uint (fst (timer_elapsed_ticks since w)) = uint (fst (timer_current_in_ticks w)) - uint since) \<and>
   (fst (timer_current_in_ticks w) < since \<longrightarrow>
      uint (fst (timer_elapsed_ticks since w))
        = uint (fst (timer_current_in_ticks w)) - uint since + 2 ^ 64)"
  apply (simp add: timer_elapsed_ticks_eq timer_current_in_ticks_eq)
  apply (intro conjI impI)
    apply (simp add: uint_word_ariths)
   apply (simp add: uint_minus_simple_alt)
  apply (simp add: uint_sub_if' word_less_def)
  done

theorem elapsed_ticks_mod_witness:
  "5 \<le> fst (timer_current_in_ticks (startup (sconst (clock_at 0 7)) (sconst clock_failure))) \<and>
   uint (fst (timer_elapsed_ticks 5 (startup (sconst (clock_at 0 7)) (sconst clock_failure)))) = 2 \<and>
   fst (timer_current_in_ticks (startup (sconst (clock_at 0 7)) (sconst clock_failure))) < 9 \<and>
   uint (fst (timer_elapsed_ticks 9 (startup (sconst (clock_at 0 7)) (sconst clock_failure))))
     = 18446744073709551614"
  using elapsed_ticks_mod [of 5 "startup (sconst (clock_at 0 7)) (sconst clock_failure)"]
    elapsed_ticks_mod [of 9 "startup (sconst (clock_at 0 7)) (sconst clock_failure)"]
  by (simp add: startup_def timer_current_in_ticks_eq tick_of_clock_at)

text \<open>
  C6. For the same \<open>since\<close> and the same clock answer, converting the result of
  \<^verbatim>\<open>timer_elapsed_ticks\<close> with \<^verbatim>\<open>timer_ticks_to_seconds\<close> gives the very double that
  \<^verbatim>\<open>timer_elapsed\<close> returns.
\<close>

theorem ticks_to_seconds_elapsed_ticks:
  "timer_ticks_to_seconds (fst (timer_elapsed_ticks since w)) (snd (timer_elapsed_ticks since w))
     = fst (timer_elapsed since w)"
  by (simp add: timer_ticks_to_seconds_def timer_elapsed_def split_def Let_def)

text \<open>
  C7. Once a call of \<^verbatim>\<open>timer_lib_initialize\<close> has returned 0, at any later point of
  the program, converting \<^verbatim>\<open>timer_ticks_per_second()\<close> ticks with
  \<^verbatim>\<open>timer_ticks_to_seconds\<close> gives 1.0: the product of \<open>10\<^sup>9\<close> and the double nearest
  to \<open>10\<^sup>-\<^sup>9\<close> rounds to exactly one.
\<close>

theorem one_second_of_ticks:
  "initialize_succeeded cs w \<Longrightarrow>
   timer_ticks_to_seconds (timer_ticks_per_second (run cs w)) (run cs w) = Finite 1"
proof -
  assume "initialize_succeeded cs w"
  from run_initialized [OF this]
  have "timer_ticks_to_seconds (timer_ticks_per_second (run cs w)) (run cs w)
          = fmul (double_of_tick 1000000000) (fdiv (Finite 1) (double_of_tick 1000000000))"
    by (simp add: timer_ticks_to_seconds_def timer_ticks_per_second_def)
  also have "\<dots> = Finite 1"
    by (simp only: double_of_tick_freq reciprocal_freq freq_times_reciprocal)
  finally show ?thesis .
qed

theorem one_second_of_ticks_witness:
  "initialize_succeeded [Initialize, Elapsed_from_lastCall, Initialize]
     (startup (clock_at 1 5 ## sconst clock_failure) (sconst clock_failure)) \<and>
   timer_ticks_to_seconds
     (timer_ticks_per_second
        (run [Initialize, Elapsed_from_lastCall, Initialize]
           (startup (clock_at 1 5 ## sconst clock_failure) (sconst clock_failure))))
     (run [Initialize, Elapsed_from_lastCall, Initialize]
        (startup (clock_at 1 5 ## sconst clock_failure) (sconst clock_failure)))
     = Finite 1"
proof -
  have ok: "initialize_succeeded [Initialize, Elapsed_from_lastCall, Initialize]
     (startup (clock_at 1 5 ## sconst clock_failure) (sconst clock_failure))"
    by (simp add: timer_lib_initialize_eq startup_def clock_at_def)
  from ok one_second_of_ticks [OF ok] show ?thesis by simp
qed

text \<open>
  C8. \<^verbatim>\<open>timer_lib_shutdown\<close> returns nothing and leaves the whole state, in particular
  \<^verbatim>\<open>timerlib_freq\<close>, \<^verbatim>\<open>timerlib_oofreq\<close> and \<^verbatim>\<open>last_mark_ticks\<close>, as it was.
\<close>

theorem shutdown_no_effect:
  "snd (timer_lib_shutdown w) = w \<and>
   timerlib_freq (snd (timer_lib_shutdown w)) = timerlib_freq w \<and>
   timerlib_oofreq (snd (timer_lib_shutdown w)) = timerlib_oofreq w \<and>
   last_mark_ticks (snd (timer_lib_shutdown w)) = last_mark_ticks w \<and>
   fst (timer_lib_shutdown w) = ()"
  by (simp add: timer_lib_shutdown_def)

text \<open>
  C9. As long as no call of \<^verbatim>\<open>timer_lib_initialize\<close> has returned 0, whatever else the
  program has called since its start, the stored reciprocal is 0, so
  \<^verbatim>\<open>timer_ticks_to_seconds\<close> and \<^verbatim>\<open>timer_elapsed\<close> return 0.0 for every argument, while
  \<^verbatim>\<open>timer_ticks_per_second\<close> already returns 1000000000.
\<close>

theorem zero_seconds_before_initialize:
  assumes "\<not> initialize_succeeded cs (startup mclock rclock)"
  shows "timerlib_oofreq (run cs (startup mclock rclock)) = Finite 0 \<and>
         timer_ticks_to_seconds delta (run cs (startup mclock rclock)) = Finite 0 \<and>
         fst (timer_elapsed since (run cs (startup mclock rclock))) = Finite 0 \<and>
         timer_ticks_per_second (run cs (startup mclock rclock)) = 1000000000"
proof -
  have "timerlib_oofreq (startup mclock rclock) = Finite 0"
    "timerlib_freq (startup mclock rclock) = 1000000000"
    by (simp_all add: startup_def)
  from run_keeps_uninitialized [OF this assms]
  show ?thesis
    by (simp add: timer_ticks_to_seconds_def timer_elapsed_def timer_elapsed_ticks_eq
        timer_ticks_per_second_def fmul_tick_zero)
qed

theorem zero_seconds_before_initialize_witness:
  "\<not> initialize_succeeded [Initialize, Elapsed_from_lastCall, Shutdown]
       (startup (sconst clock_failure) (sconst clock_failure)) \<and>
   timer_ticks_to_seconds 5
     (run [Initialize, Elapsed_from_lastCall, Shutdown]
        (startup (sconst clock_failure) (sconst clock_failure))) = Finite 0 \<and>
   fst (timer_elapsed 7
     (run [Initialize, Elapsed_from_lastCall, Shutdown]
        (startup (sconst clock_failure) (sconst clock_failure)))) = Finite 0 \<and>
   timer_ticks_per_second
     (run [Initialize, Elapsed_from_lastCall, Shutdown]
        (startup (sconst clock_failure) (sconst clock_failure))) = 1000000000"
proof -
  have no: "\<not> initialize_succeeded [Initialize, Elapsed_from_lastCall, Shutdown]
       (startup (sconst clock_failure) (sconst clock_failure))"
    by (simp add: timer_lib_initialize_eq startup_def clock_failure_def)
  from no zero_seconds_before_initialize [OF no, of 5 7] show ?thesis by simp
qed

text \<open>
  C10. After a call of \<^verbatim>\<open>timer_elapsed_from_lastCall\<close> the mark is the last tick the
  call read (the second one when the mark was 0 on entry, the only one otherwise). If
  that tick is 0 the mark is 0 again, and the next call takes the first-call path: it
  reads the clock twice and returns the seconds between its own two readings.
\<close>

theorem mark_is_final_reading:
  "last_mark_ticks (snd (timer_elapsed_from_lastCall w)) =
     (if last_mark_ticks w = 0 then tick_of (shd (stl (monotonic_clock w)))
      else tick_of (shd (monotonic_clock w))) \<and>
   (last_mark_ticks (snd (timer_elapsed_from_lastCall w)) = 0 \<longrightarrow>
      monotonic_clock (snd (timer_elapsed_from_lastCall (snd (timer_elapsed_from_lastCall w))))
        = stl (stl (monotonic_clock (snd (timer_elapsed_from_lastCall w)))) \<and>
      fst (timer_elapsed_from_lastCall (snd (timer_elapsed_from_lastCall w))) =
        fdiv (double_of_tick
               (tick_of (shd (stl (monotonic_clock (snd (timer_elapsed_from_lastCall w)))))
                - tick_of (shd (monotonic_clock (snd (timer_elapsed_from_lastCall w))))))
             (double_of_tick (timerlib_freq w)))"
proof -
  have freq: "timerlib_freq (snd (timer_elapsed_from_lastCall w)) = timerlib_freq w"
    by (cases "last_mark_ticks w = 0")
      (simp_all add: timer_elapsed_from_lastCall_set timer_elapsed_from_lastCall_unset)
  have "last_mark_ticks (snd (timer_elapsed_from_lastCall w)) =
     (if last_mark_ticks w = 0 then tick_of (shd (stl (monotonic_clock w)))
      else tick_of (shd (monotonic_clock w)))"
    by (cases "last_mark_ticks w = 0")
      (simp_all add: timer_elapsed_from_lastCall_set timer_elapsed_from_lastCall_unset)
  moreover have "monotonic_clock (snd (timer_elapsed_from_lastCall w')) = stl (stl (monotonic_clock w')) \<and>
      fst (timer_elapsed_from_lastCall w') =
        fdiv (double_of_tick (tick_of (shd (stl (monotonic_clock w'))) - tick_of (shd (monotonic_clock w'))))
             (double_of_tick (timerlib_freq w'))" if "last_mark_ticks w' = 0" for w'
    using that by (simp add: timer_elapsed_from_lastCall_unset)
  ultimately show ?thesis using freq by metis
qed

theorem mark_is_final_reading_witness:
  "last_mark_ticks (snd (timer_elapsed_from_lastCall
      (startup (sconst clock_failure) (sconst clock_failure)))) = 0 \<and>
   monotonic_clock (snd (timer_elapsed_from_lastCall (snd (timer_elapsed_from_lastCall
      (startup (sconst clock_failure) (sconst clock_failure))))))
     = stl (stl (monotonic_clock (snd (timer_elapsed_from_lastCall
      (startup (sconst clock_failure) (sconst clock_failure))))))"
  using mark_is_final_reading [of "startup (sconst clock_failure) (sconst clock_failure)"]
  by (simp add: startup_def tick_of_clock_failure)

end
